theory Spec2Isabelle
  imports Complex_Main
begin

section \<open>LintAI: the assertion evaluation and scoring engine of \<open>dist/index.js\<close>\<close>

text \<open>
  The engine is the body of \<open>run\<close> in \<open>dist/index.js\<close>, lines 26 to 71: a pass over the
  assertions of the parsed configuration, followed by the percentage and the overall
  decision. The configuration is whatever \<open>JSON.parse\<close> returned, so the model works on
  JavaScript values and writes out the dynamic operations the code relies on
  (\<open>||\<close>, \<open>?.\<close>, \<open>===\<close>, \<open>+\<close>, \<open>>\<close>, \<open>>=\<close>).

  Numbers are IEEE doubles in the program. Here a number is the rational that a finite
  double is, or NaN; the infinities are not modelled. The arithmetic of doubles rounds
  its results, so the sum, the quotient and the product of the score are parameters of the
  model, and a property that needs arithmetic without rounding says so. A string is a
  \<^typ>\<open>string\<close>, each character standing for one UTF-16 code unit below 256.
\<close>

subsection \<open>JavaScript values\<close>

datatype jsval =
    JUndefined
  | JNull
  | JBool bool
  | JNum rat
  | JNaN
  | JStr string
  | JArr "jsval list"
  | JObj "(string \<times> jsval) list"

text \<open>What the \<open>try\<close>/\<open>catch\<close> of \<open>run\<close> can catch between lines 33 and 71.\<close>

datatype error = TypeError | SyntaxError

text \<open>
  The built-ins taken as parameters: the addition, the division and the multiplication
  of two numbers, how a number that is not a small integer prints, how a string reads as
  a number (\<open>None\<close> is NaN), and whether \<open>new RegExp(pattern, 'i').test(s)\<close> holds
  (\<open>None\<close>: the constructor throws a SyntaxError).
\<close>

record js_builtins =
  NumberAdd :: "rat \<Rightarrow> rat \<Rightarrow> rat"
  NumberDivide :: "rat \<Rightarrow> rat \<Rightarrow> rat"
  NumberMultiply :: "rat \<Rightarrow> rat \<Rightarrow> rat"
  NumberToString :: "rat \<Rightarrow> string"
  StringToNumber :: "string \<Rightarrow> rat option"
  RegExp_test_i :: "string \<Rightarrow> string \<Rightarrow> bool option"

subsection \<open>Truthiness, property access\<close>

fun truthy :: "jsval \<Rightarrow> bool" where
  "truthy JUndefined = False"
| "truthy JNull = False"
| "truthy (JBool b) = b"
| "truthy (JNum r) = (r \<noteq> 0)"
| "truthy JNaN = False"
| "truthy (JStr s) = (s \<noteq> [])"
| "truthy (JArr xs) = True"
| "truthy (JObj kvs) = True"

text \<open>\<open>a || b\<close>\<close>

definition js_or :: "jsval \<Rightarrow> jsval \<Rightarrow> jsval" where
  "js_or a b = (if truthy a then a else b)"

fun nullish :: "jsval \<Rightarrow> bool" where
  "nullish JUndefined = True"
| "nullish JNull = True"
| "nullish v = False"

text \<open>
  \<open>v.k\<close> for a value that is neither \<open>null\<close> nor \<open>undefined\<close> and one of the keys the
  program reads (\<open>assertions\<close>, \<open>name\<close>, \<open>type\<close>, \<open>params\<close>, \<open>weight\<close>, \<open>max_chars\<close>,
  \<open>text\<close>, \<open>pattern\<close>): an object of \<open>JSON.parse\<close> has its own properties only, and no
  primitive or array has one of these keys. An object lists its members in the order of
  the JSON text, and of a repeated key \<open>JSON.parse\<close> keeps the last value. On \<open>null\<close> and
  \<open>undefined\<close> the access throws a TypeError; the callers test \<open>nullish\<close> first.
\<close>

fun get_prop :: "jsval \<Rightarrow> string \<Rightarrow> jsval" where
  "get_prop (JObj kvs) k = (case map_of (rev kvs) k of Some v \<Rightarrow> v | None \<Rightarrow> JUndefined)"
| "get_prop v k = JUndefined"

text \<open>\<open>v?.k\<close>\<close>

definition opt_prop :: "jsval \<Rightarrow> string \<Rightarrow> jsval" where
  "opt_prop v k = (if nullish v then JUndefined else get_prop v k)"

subsection \<open>Conversions\<close>

definition digit_char :: "nat \<Rightarrow> char" where
  "digit_char n = ''0123456789'' ! n"

fun show_nat :: "nat \<Rightarrow> string" where
  "show_nat n = (if n < 10 then [digit_char n] else show_nat (n div 10) @ [digit_char (n mod 10)])"

declare show_nat.simps [simp del]

definition show_int :: "int \<Rightarrow> string" where
  "show_int i = (if i < 0 then CHR ''-'' # show_nat (nat (- i)) else show_nat (nat i))"

text \<open>\<open>Number::toString\<close>: an integer below \<open>10^21\<close> in absolute value prints in decimal.\<close>

definition number_to_string :: "js_builtins \<Rightarrow> rat \<Rightarrow> string" where
  "number_to_string js r =
     (if r = of_int \<lfloor>r\<rfloor> \<and> \<bar>r\<bar> < 10 ^ 21 then show_int \<lfloor>r\<rfloor> else NumberToString js r)"

fun join_comma :: "string list \<Rightarrow> string" where
  "join_comma [] = []"
| "join_comma [s] = s"
| "join_comma (s # t # ss) = s @ CHR '','' # join_comma (t # ss)"

text \<open>
  \<open>ToString\<close>. An array prints as \<open>Array.prototype.join\<close> does (\<open>null\<close> and
  \<open>undefined\<close> elements as the empty string), a plain object as \<open>[object Object]\<close>.
\<close>

fun to_string :: "js_builtins \<Rightarrow> jsval \<Rightarrow> string" where
  "to_string js JUndefined = ''undefined''"
| "to_string js JNull = ''null''"
| "to_string js (JBool b) = (if b then ''true'' else ''false'')"
| "to_string js (JNum r) = number_to_string js r"
| "to_string js JNaN = ''NaN''"
| "to_string js (JStr s) = s"
| "to_string js (JArr xs) =
     join_comma (map (\<lambda>x. if nullish x then [] else to_string js x) xs)"
| "to_string js (JObj kvs) = ''[object Object]''"

text \<open>\<open>ToPrimitive\<close>: arrays and plain objects become their strings.\<close>

fun to_primitive :: "js_builtins \<Rightarrow> jsval \<Rightarrow> jsval" where
  "to_primitive js (JArr xs) = JStr (to_string js (JArr xs))"
| "to_primitive js (JObj kvs) = JStr (to_string js (JObj kvs))"
| "to_primitive js v = v"

text \<open>\<open>ToNumber\<close>; \<open>None\<close> is NaN.\<close>

definition to_number :: "js_builtins \<Rightarrow> jsval \<Rightarrow> rat option" where
  "to_number js v =
     (case to_primitive js v of
        JUndefined \<Rightarrow> None
      | JNull \<Rightarrow> Some 0
      | JBool b \<Rightarrow> Some (if b then 1 else 0)
      | JNum r \<Rightarrow> Some r
      | JNaN \<Rightarrow> None
      | JStr s \<Rightarrow> StringToNumber js s
      | _ \<Rightarrow> None)"

fun is_string :: "jsval \<Rightarrow> bool" where
  "is_string (JStr s) = True"
| "is_string v = False"

text \<open>\<open>a + b\<close>: concatenation as soon as one primitive is a string, addition otherwise.\<close>

definition js_add :: "js_builtins \<Rightarrow> jsval \<Rightarrow> jsval \<Rightarrow> jsval" where
  "js_add js a b =
     (let pa = to_primitive js a; pb = to_primitive js b in
      if is_string pa \<or> is_string pb then JStr (to_string js pa @ to_string js pb)
      else (case (to_number js pa, to_number js pb) of
              (Some x, Some y) \<Rightarrow> JNum (NumberAdd js x y)
            | _ \<Rightarrow> JNaN))"

text \<open>
  \<open>n > v\<close> and \<open>v > n\<close> for a number \<open>n\<close>: the other side is converted to a number, and
  a comparison with NaN is false. The program never compares two strings.
\<close>

definition num_gt :: "js_builtins \<Rightarrow> rat \<Rightarrow> jsval \<Rightarrow> bool" where
  "num_gt js n v = (case to_number js v of None \<Rightarrow> False | Some m \<Rightarrow> n > m)"

definition gt_num :: "js_builtins \<Rightarrow> jsval \<Rightarrow> rat \<Rightarrow> bool" where
  "gt_num js v n = (case to_number js v of None \<Rightarrow> False | Some m \<Rightarrow> m > n)"

text \<open>\<open>v >= n\<close> for a number or NaN \<open>v\<close> and a number \<open>n\<close>.\<close>

definition ge_num :: "jsval \<Rightarrow> rat \<Rightarrow> bool" where
  "ge_num v n = (case v of JNum s \<Rightarrow> s \<ge> n | _ \<Rightarrow> False)"

text \<open>\<open>Math.round\<close>: the nearest integer, a tie going up.\<close>

definition Math_round :: "rat \<Rightarrow> rat" where
  "Math_round x = of_int \<lfloor>x + 1 / 2\<rfloor>"

subsection \<open>Strings and regular expressions\<close>

fun starts_with :: "string \<Rightarrow> string \<Rightarrow> bool" where
  "starts_with s [] = True"
| "starts_with [] (c # t) = False"
| "starts_with (d # s) (c # t) = (d = c \<and> starts_with s t)"

text \<open>\<open>s.includes(t)\<close>\<close>

fun js_includes :: "string \<Rightarrow> string \<Rightarrow> bool" where
  "js_includes [] t = (t = [])"
| "js_includes (c # s) t = (starts_with (c # s) t \<or> js_includes s t)"

text \<open>
  The regular expressions the model reads itself are the patterns made of ASCII
  letters, digits and spaces only: such a pattern has no metacharacter, and with the
  flag \<open>i\<close> it matches where the output holds it up to the case of ASCII letters.
  Every other pattern goes to the parameter \<open>RegExp_test_i\<close>.
\<close>

definition lower_letters :: string where
  "lower_letters = ''abcdefghijklmnopqrstuvwxyz''"

definition upper_letters :: string where
  "upper_letters = ''ABCDEFGHIJKLMNOPQRSTUVWXYZ''"

definition plain_char :: "char \<Rightarrow> bool" where
  "plain_char c = List.member (lower_letters @ upper_letters @ ''0123456789 '') c"

definition ascii_upper :: "char \<Rightarrow> char" where
  "ascii_upper c = (case map_of (zip lower_letters upper_letters) c of Some u \<Rightarrow> u | None \<Rightarrow> c)"

definition regexp_test_i :: "js_builtins \<Rightarrow> string \<Rightarrow> string \<Rightarrow> bool option" where
  "regexp_test_i js pattern s =
     (if list_all plain_char pattern
      then Some (js_includes (map ascii_upper s) (map ascii_upper pattern))
      else RegExp_test_i js pattern s)"

subsection \<open>One assertion (lines 35 to 62)\<close>

record assertion_result =
  res_name :: jsval
  res_passed :: bool
  res_message :: string
  res_weight :: jsval

text \<open>Line 35: \<open>assertion.weight || 1.0\<close>.\<close>

definition assertion_weight :: "jsval \<Rightarrow> jsval" where
  "assertion_weight assertion = js_or (get_prop assertion ''weight'') (JNum 1)"

text \<open>
  Lines 40 to 55: the pair of \<open>assertionPassed\<close> and \<open>message\<close>. The length of a string
  is an integer below \<open>2^53\<close>, which the template literal prints in decimal.
\<close>

definition check :: "js_builtins \<Rightarrow> string \<Rightarrow> jsval \<Rightarrow> error + bool \<times> string" where
  "check js output assertion =
     (let ty = get_prop assertion ''type''; params = get_prop assertion ''params'' in
      if ty = JStr ''MAX_LENGTH'' \<and>
         num_gt js (of_nat (length output)) (js_or (opt_prop params ''max_chars'') (JNum 1000))
      then Inr (False, ''Output too long: '' @ show_nat (length output) @ '' chars'')
      else if ty = JStr ''CONTAINS_TEXT'' then
        (let required = opt_prop params ''text'' in
         if truthy required \<and> \<not> js_includes output (to_string js required)
         then Inr (False, ''Missing required text: '' @ [CHR 0x22] @ to_string js required @ [CHR 0x22])
         else Inr (True, ''Passed''))
      else if ty = JStr ''NO_PATTERN'' then
        (let pattern = opt_prop params ''pattern'' in
         if truthy pattern then
           (case regexp_test_i js (to_string js pattern) output of
              None \<Rightarrow> Inl SyntaxError
            | Some True \<Rightarrow> Inr (False, ''Output contains forbidden pattern'')
            | Some False \<Rightarrow> Inr (True, ''Passed''))
         else Inr (True, ''Passed''))
      else Inr (True, ''Passed''))"

text \<open>
  The body of the loop up to the \<open>push\<close>. The first property access, \<open>assertion.weight\<close>,
  throws when the element is \<open>null\<close>.
\<close>

definition eval_assertion :: "js_builtins \<Rightarrow> string \<Rightarrow> jsval \<Rightarrow> error + assertion_result" where
  "eval_assertion js output assertion =
     (if nullish assertion then Inl TypeError
      else
        (let weight = assertion_weight assertion in
         case check js output assertion of
           Inl e \<Rightarrow> Inl e
         | Inr (assertionPassed, message) \<Rightarrow>
             Inr \<lparr>res_name = get_prop assertion ''name'', res_passed = assertionPassed,
                  res_message = message, res_weight = weight\<rparr>))"

subsection \<open>The loop and the aggregation (lines 26 to 71)\<close>

record loop_state =
  score :: jsval
  failedCount :: nat
  results :: "assertion_result list"

definition init_state :: loop_state where
  "init_state = \<lparr>score = JNum 0, failedCount = 0, results = []\<rparr>"

text \<open>Lines 57 to 65.\<close>

definition record_result :: "js_builtins \<Rightarrow> loop_state \<Rightarrow> assertion_result \<Rightarrow> loop_state" where
  "record_result js st r =
     \<lparr>score = js_add js (score st) (if res_passed r then res_weight r else JNum 0),
      failedCount = (if res_passed r then failedCount st else failedCount st + 1),
      results = results st @ [r]\<rparr>"

fun for_assertions ::
  "js_builtins \<Rightarrow> string \<Rightarrow> jsval list \<Rightarrow> loop_state \<Rightarrow> error + loop_state" where
  "for_assertions js output [] st = Inr st"
| "for_assertions js output (a # as) st =
     (case eval_assertion js output a of
        Inl e \<Rightarrow> Inl e
      | Inr r \<Rightarrow> for_assertions js output as (record_result js st r))"

text \<open>Line 69: \<open>assertions.reduce((sum, a) => sum + (a.weight || 1.0), 0)\<close>.\<close>

definition totalWeight :: "js_builtins \<Rightarrow> jsval list \<Rightarrow> jsval" where
  "totalWeight js assertions = foldl (\<lambda>sum a. js_add js sum (assertion_weight a)) (JNum 0) assertions"

text \<open>Line 70. Under the guard the divisor is a number above zero.\<close>

definition percentage :: "js_builtins \<Rightarrow> jsval \<Rightarrow> jsval \<Rightarrow> jsval" where
  "percentage js sc tw =
     (if gt_num js tw 0 then
        (case (to_number js sc, to_number js tw) of
           (Some s, Some t) \<Rightarrow> JNum (Math_round (NumberMultiply js (NumberDivide js s t) 100))
         | _ \<Rightarrow> JNaN)
      else JNum 0)"

record validation_report =
  rep_score :: jsval
  rep_passed :: bool
  rep_failedCount :: nat
  rep_results :: "assertion_result list"

text \<open>Lines 34 to 71 on the array of assertions.\<close>

definition validate ::
  "js_builtins \<Rightarrow> string \<Rightarrow> rat \<Rightarrow> jsval list \<Rightarrow> error + validation_report" where
  "validate js output threshold assertions =
     (case for_assertions js output assertions init_state of
        Inl e \<Rightarrow> Inl e
      | Inr st \<Rightarrow>
          (let sc = percentage js (score st) (totalWeight js assertions);
               passed = (ge_num sc threshold \<and> failedCount st = 0)
           in Inr \<lparr>rep_score = sc, rep_passed = passed,
                   rep_failedCount = failedCount st, rep_results = results st\<rparr>))"

text \<open>
  Lines 33 to 71 on the parsed configuration. \<open>config.assertions\<close> throws on \<open>null\<close>.
  A truthy \<open>assertions\<close> that is not an array ends in a TypeError: a number, \<open>true\<close> or
  an object is not iterable, and a string has no \<open>reduce\<close>.
\<close>

definition run :: "js_builtins \<Rightarrow> string \<Rightarrow> rat \<Rightarrow> jsval \<Rightarrow> error + validation_report" where
  "run js output threshold config =
     (if nullish config then Inl TypeError
      else
        (case js_or (get_prop config ''assertions'') (JArr []) of
           JArr assertions \<Rightarrow> validate js output threshold assertions
         | _ \<Rightarrow> Inl TypeError))"

subsection \<open>The score as the specification words it\<close>








subsection \<open>Concrete inputs\<close>

text \<open>
  An instance of the parameters for the runs below. Its arithmetic does not round; the
  sums, quotients and products of these runs are the same in doubles, up to a rounding
  that does not change \<open>Math.round\<close>. The runs consult none of the other three: every
  number printed is a small integer, no string is read as a number, and every pattern is
  plain.
\<close>

definition exact_builtins :: js_builtins where
  "exact_builtins =
     \<lparr>NumberAdd = (+), NumberDivide = (/), NumberMultiply = (*),
      NumberToString = (\<lambda>r. []), StringToNumber = (\<lambda>s. None), RegExp_test_i = (\<lambda>p s. None)\<rparr>"

text \<open>The configuration of the end-to-end example: a length limit of 10 and a required text.\<close>

definition example_assertions :: "jsval list" where
  "example_assertions =
     [JObj [(''name'', JStr ''len''), (''type'', JStr ''MAX_LENGTH''),
            (''params'', JObj [(''max_chars'', JNum 10)]), (''weight'', JNum 1)],
      JObj [(''name'', JStr ''txt''), (''type'', JStr ''CONTAINS_TEXT''),
            (''params'', JObj [(''text'', JStr ''hello'')]), (''weight'', JNum 1)]]"

definition example_config :: jsval where
  "example_config = JObj [(''assertions'', JArr example_assertions)]"


text \<open>Assertions for the length rule: a limit of 10, a limit of 0, and no parameters.\<close>

definition limit_ten :: jsval where
  "limit_ten = JObj [(''name'', JStr ''len''), (''type'', JStr ''MAX_LENGTH''),
                     (''params'', JObj [(''max_chars'', JNum 10)])]"

definition limit_zero :: jsval where
  "limit_zero = JObj [(''name'', JStr ''len''), (''type'', JStr ''MAX_LENGTH''),
                      (''params'', JObj [(''max_chars'', JNum 0)])]"


text \<open>A required text and a forbidden pattern.\<close>

definition requires_hello :: jsval where
  "requires_hello = JObj [(''name'', JStr ''txt''), (''type'', JStr ''CONTAINS_TEXT''),
                          (''params'', JObj [(''text'', JStr ''hello'')])]"



definition one_more :: jsval where
  "one_more = JObj [(''name'', JStr ''more''), (''type'', JStr ''CONTAINS_TEXT''),
                    (''params'', JObj [(''text'', JStr ''hell'')]), (''weight'', JNum 1)]"

text \<open>
  The doubles of one run, for which the arithmetic is not exact: a passing weight of 222
  and a failing weight of 178, then one more passing weight of \<open>33 / 2^50\<close>. The sum
  \<open>222 + 33 / 2^50\<close> rounds down to \<open>222 + 1 / 2^45\<close> and \<open>400 + 33 / 2^50\<close> rounds up to
  \<open>400 + 1 / 2^44\<close>; the two quotients and their products with 100 are the nearest
  doubles. Everywhere else the instance is exact, and the run does not go there.
\<close>

definition doubles_near_tie :: js_builtins where
  "doubles_near_tie =
     \<lparr>NumberAdd = (\<lambda>a b.
        if a = 222 \<and> b = 33 / 2 ^ 50 then 222 + 1 / 2 ^ 45
        else if a = 400 \<and> b = 33 / 2 ^ 50 then 400 + 1 / 2 ^ 44
        else a + b),
      NumberDivide = (\<lambda>a b.
        if a = 222 \<and> b = 400 then 4998995586381251 / 2 ^ 53
        else if a = 222 + 1 / 2 ^ 45 \<and> b = 400 + 1 / 2 ^ 44 then 2499497793190625 / 2 ^ 52
        else a / b),
      NumberMultiply = (\<lambda>a b.
        if a = 4998995586381251 / 2 ^ 53 \<and> b = 100 then 111 / 2 + 1 / 2 ^ 47
        else if a = 2499497793190625 / 2 ^ 52 \<and> b = 100 then 111 / 2 - 1 / 2 ^ 47
        else a * b),
      NumberToString = (\<lambda>r. []), StringToNumber = (\<lambda>s. None), RegExp_test_i = (\<lambda>p s. None)\<rparr>"

definition near_tie_assertions :: "jsval list" where
  "near_tie_assertions =
     [JObj [(''name'', JStr ''txt''), (''type'', JStr ''CONTAINS_TEXT''),
            (''params'', JObj [(''text'', JStr ''hello'')]), (''weight'', JNum 222)],
      JObj [(''name'', JStr ''bye''), (''type'', JStr ''CONTAINS_TEXT''),
            (''params'', JObj [(''text'', JStr ''goodbye'')]), (''weight'', JNum 178)]]"

definition tiny_more :: jsval where
  "tiny_more = JObj [(''name'', JStr ''more''), (''type'', JStr ''CONTAINS_TEXT''),
                     (''params'', JObj [(''text'', JStr ''hell'')]), (''weight'', JNum (33 / 2 ^ 50))]"

section \<open>Properties\<close>

subsection \<open>The loop\<close>

lemma for_assertions_Inr:
  "for_assertions js output as st = Inr st' \<Longrightarrow>
     \<exists>rs. list_all2 (\<lambda>a r. eval_assertion js output a = Inr r) as rs \<and>
          st' = foldl (record_result js) st rs"
proof (induction as arbitrary: st)
  case Nil
  then show ?case by simp
next
  case (Cons a as)
  from Cons.prems obtain r where r: "eval_assertion js output a = Inr r"
    and rest: "for_assertions js output as (record_result js st r) = Inr st'"
    by (auto split: sum.splits)
  from Cons.IH [OF rest] obtain rs where
    "list_all2 (\<lambda>a r. eval_assertion js output a = Inr r) as rs"
    "st' = foldl (record_result js) (record_result js st r) rs"
    by blast
  with r have "list_all2 (\<lambda>a r. eval_assertion js output a = Inr r) (a # as) (r # rs) \<and>
      st' = foldl (record_result js) st (r # rs)"
    by simp
  then show ?case by blast
qed

lemma for_assertions_total:
  "list_all2 (\<lambda>a r. eval_assertion js output a = Inr r) as rs \<Longrightarrow>
     for_assertions js output as st = Inr (foldl (record_result js) st rs)"
  by (induction as rs arbitrary: st rule: list_all2_induct) simp_all

lemma results_foldl:
  "results (foldl (record_result js) st rs) = results st @ rs"
  by (induction rs arbitrary: st) (simp_all add: record_result_def)

lemma failedCount_foldl:
  "failedCount (foldl (record_result js) st rs) =
     failedCount st + length (filter (\<lambda>r. \<not> res_passed r) rs)"
  by (induction rs arbitrary: st) (simp_all add: record_result_def)

lemma score_foldl:
  "score (foldl (record_result js) st rs) =
     foldl (js_add js) (score st) (map (\<lambda>r. if res_passed r then res_weight r else JNum 0) rs)"
  by (induction rs arbitrary: st) (simp_all add: record_result_def)

lemma run_Inr:
  "run js output threshold config = Inr rep \<Longrightarrow>
     \<exists>as. js_or (get_prop config ''assertions'') (JArr []) = JArr as \<and>
          validate js output threshold as = Inr rep"
  by (auto simp: run_def split: if_splits jsval.splits)

lemma validate_Inr:
  "validate js output threshold as = Inr rep \<Longrightarrow>
     \<exists>rs. list_all2 (\<lambda>a r. eval_assertion js output a = Inr r) as rs \<and>
       rep_results rep = rs \<and>
       rep_failedCount rep = length (filter (\<lambda>r. \<not> res_passed r) rs) \<and>
       rep_score rep = percentage js
          (foldl (js_add js) (JNum 0) (map (\<lambda>r. if res_passed r then res_weight r else JNum 0) rs))
          (totalWeight js as) \<and>
       rep_passed rep = (ge_num (rep_score rep) threshold \<and> rep_failedCount rep = 0)"
proof -
  assume v: "validate js output threshold as = Inr rep"
  then obtain st where st: "for_assertions js output as init_state = Inr st"
    by (auto simp: validate_def split: sum.splits)
  from for_assertions_Inr [OF st] obtain rs where
    rs: "list_all2 (\<lambda>a r. eval_assertion js output a = Inr r) as rs"
    and st': "st = foldl (record_result js) init_state rs" by blast
  have "results st = rs" "failedCount st = length (filter (\<lambda>r. \<not> res_passed r) rs)"
    "score st = foldl (js_add js) (JNum 0) (map (\<lambda>r. if res_passed r then res_weight r else JNum 0) rs)"
    unfolding st' by (simp_all add: results_foldl failedCount_foldl score_foldl init_state_def)
  with v st rs show ?thesis
    by (auto simp: validate_def Let_def)
qed

lemma run_on_array:
  "run js output threshold (JObj [(''assertions'', JArr as)]) = validate js output threshold as"
  by (simp add: run_def js_or_def)

text \<open>
  The evaluation of an assertion throws in two cases only: the element is \<open>null\<close>, or it is
  a \<open>NO_PATTERN\<close> assertion whose pattern does not compile.
\<close>

lemma eval_assertion_returns:
  assumes "\<not> nullish a"
    and "get_prop a ''type'' = JStr ''NO_PATTERN'' \<and>
         truthy (opt_prop (get_prop a ''params'') ''pattern'') \<longrightarrow>
           regexp_test_i js (to_string js (opt_prop (get_prop a ''params'') ''pattern'')) output \<noteq> None"
  shows "\<exists>r. eval_assertion js output a = Inr r"
  using assms
  by (auto simp: eval_assertion_def check_def Let_def split: option.splits bool.splits)

lemma validate_returns:
  assumes "list_all (\<lambda>a. \<exists>r. eval_assertion js output a = Inr r) as"
  shows "\<exists>rep. validate js output threshold as = Inr rep"
proof -
  from assms have "\<exists>rs. list_all2 (\<lambda>a r. eval_assertion js output a = Inr r) as rs"
  proof (induction as)
    case Nil
    then show ?case by simp
  next
    case (Cons a as)
    then obtain r rs where "eval_assertion js output a = Inr r"
      "list_all2 (\<lambda>a r. eval_assertion js output a = Inr r) as rs" by auto
    then have "list_all2 (\<lambda>a r. eval_assertion js output a = Inr r) (a # as) (r # rs)" by simp
    then show ?case by blast
  qed
  then obtain rs where "list_all2 (\<lambda>a r. eval_assertion js output a = Inr r) as rs" by blast
  from for_assertions_total [OF this, of init_state] show ?thesis
    by (simp add: validate_def Let_def)
qed

lemma example_long_output:
  "run exact_builtins ''hello world!!'' 50 example_config =
     Inr \<lparr>rep_score = JNum 50, rep_passed = False, rep_failedCount = 1,
          rep_results =
            [\<lparr>res_name = JStr ''len'', res_passed = False,
               res_message = ''Output too long: 13 chars'', res_weight = JNum 1\<rparr>,
             \<lparr>res_name = JStr ''txt'', res_passed = True,
               res_message = ''Passed'', res_weight = JNum 1\<rparr>]\<rparr>"
  by code_simp

lemma example_short_output:
  "run exact_builtins ''hello'' 50 example_config =
     Inr \<lparr>rep_score = JNum 100, rep_passed = True, rep_failedCount = 0,
          rep_results =
            [\<lparr>res_name = JStr ''len'', res_passed = True,
               res_message = ''Passed'', res_weight = JNum 1\<rparr>,
             \<lparr>res_name = JStr ''txt'', res_passed = True,
               res_message = ''Passed'', res_weight = JNum 1\<rparr>]\<rparr>"
  by code_simp

subsection \<open>The overall decision\<close>

text \<open>
  C1. Whenever the run returns a report, \<open>passed\<close> holds if and only if the score is a
  number at or above the threshold and no assertion failed, where the count of failed
  assertions is the number of results with \<open>passed = false\<close>. In particular a run with a
  failed assertion does not pass, whatever its score.
\<close>

theorem passed_iff_score_and_no_failure:
  assumes "run js output threshold config = Inr rep"
  shows "(rep_passed rep \<longleftrightarrow>
            (\<exists>s. rep_score rep = JNum s \<and> s \<ge> threshold) \<and> rep_failedCount rep = 0) \<and>
         rep_failedCount rep = length (filter (\<lambda>r. \<not> res_passed r) (rep_results rep)) \<and>
         ((\<exists>r \<in> set (rep_results rep). \<not> res_passed r) \<longrightarrow> \<not> rep_passed rep)"
proof -
  from run_Inr [OF assms] obtain as where
    v: "validate js output threshold as = Inr rep" by blast
  from validate_Inr [OF v] have
    fc: "rep_failedCount rep = length (filter (\<lambda>r. \<not> res_passed r) (rep_results rep))"
    and p: "rep_passed rep = (ge_num (rep_score rep) threshold \<and> rep_failedCount rep = 0)"
    by auto
  have g: "ge_num (rep_score rep) threshold \<longleftrightarrow> (\<exists>s. rep_score rep = JNum s \<and> s \<ge> threshold)"
    by (cases "rep_score rep") (simp_all add: ge_num_def)
  have "(\<exists>r \<in> set (rep_results rep). \<not> res_passed r) \<Longrightarrow> rep_failedCount rep \<noteq> 0"
    unfolding fc by (auto simp: filter_empty_conv)
  with p g fc show ?thesis by auto
qed

theorem passed_iff_score_and_no_failure_witness:
  "run exact_builtins ''hello world!!'' 50 example_config =
     Inr \<lparr>rep_score = JNum 50, rep_passed = False, rep_failedCount = 1,
          rep_results =
            [\<lparr>res_name = JStr ''len'', res_passed = False,
               res_message = ''Output too long: 13 chars'', res_weight = JNum 1\<rparr>,
             \<lparr>res_name = JStr ''txt'', res_passed = True,
               res_message = ''Passed'', res_weight = JNum 1\<rparr>]\<rparr> \<and>
   (False \<longleftrightarrow> (\<exists>s. JNum 50 = JNum s \<and> s \<ge> 50) \<and> (1::nat) = 0)"
  using passed_iff_score_and_no_failure [OF example_long_output] example_long_output
  by simp

subsection \<open>The empty configuration\<close>

text \<open>
  C3. A configuration whose \<open>assertions\<close> is the empty array gives a report, not an error,
  for every output and threshold: the score is 0, no assertion failed, and \<open>passed\<close> is
  \<open>threshold \<le> 0\<close>.
\<close>

theorem empty_assertions:
  assumes "get_prop config ''assertions'' = JArr []"
  shows "run js output threshold config =
           Inr \<lparr>rep_score = JNum 0, rep_passed = (threshold \<le> 0), rep_failedCount = 0,
                rep_results = []\<rparr>"
proof -
  from assms have "\<not> nullish config" by (cases config) auto
  with assms show ?thesis
    by (simp add: run_def js_or_def validate_def init_state_def totalWeight_def percentage_def
        gt_num_def to_number_def ge_num_def)
qed

theorem empty_assertions_witness:
  "get_prop (JObj [(''assertions'', JArr [])]) ''assertions'' = JArr [] \<and>
   run exact_builtins ''hello'' 70 (JObj [(''assertions'', JArr [])]) =
     Inr \<lparr>rep_score = JNum 0, rep_passed = False, rep_failedCount = 0, rep_results = []\<rparr>"
  using empty_assertions [of "JObj [(''assertions'', JArr [])]" exact_builtins "''hello''" 70]
  by simp

subsection \<open>The score\<close>

lemma eval_assertion_weight:
  "eval_assertion js output a = Inr r \<Longrightarrow> res_weight r = assertion_weight a"
  by (auto simp: eval_assertion_def Let_def split: if_splits sum.splits prod.splits)


lemma js_add_numbers: "js_add js (JNum a) (JNum b) = JNum (NumberAdd js a b)"
  by (simp add: js_add_def to_number_def)











subsection \<open>The weight of an assertion\<close>

lemma falsy_values:
  "\<not> truthy v \<longleftrightarrow> v \<in> {JUndefined, JNull, JBool False, JNum 0, JNaN, JStr []}"
  by (cases v) auto

text \<open>
  C4, as amended. Whenever an assertion is evaluated, the weight copied into its result
  and used for the score is the configured weight if that is truthy, so in particular if
  it is a number other than 0, and the default 1 exactly when the configured weight is
  falsy: omitted, \<open>null\<close>, \<open>false\<close>, 0 or the empty string. The loop adds this weight to the
  score of a passing assertion, and \<open>reduce\<close> adds it to the total weight.
\<close>

theorem weight_default:
  assumes "eval_assertion js output a = Inr r"
  shows "res_weight r =
           (if get_prop a ''weight'' \<in> {JUndefined, JNull, JBool False, JNum 0, JNaN, JStr []}
            then JNum 1 else get_prop a ''weight'') \<and>
         score (record_result js st r) =
           js_add js (score st) (if res_passed r then res_weight r else JNum 0) \<and>
         totalWeight js [a] = js_add js (JNum 0) (res_weight r)"
proof -
  have w: "res_weight r = assertion_weight a"
    using assms by (rule eval_assertion_weight)
  have "assertion_weight a =
      (if get_prop a ''weight'' \<in> {JUndefined, JNull, JBool False, JNum 0, JNaN, JStr []}
       then JNum 1 else get_prop a ''weight'')"
    unfolding assertion_weight_def js_or_def falsy_values [symmetric] by simp
  with w show ?thesis
    by (simp add: record_result_def totalWeight_def)
qed

lemma weight_two_example:
  "eval_assertion exact_builtins ''hi'' (JObj [(''name'', JStr ''w''), (''weight'', JNum 2)]) =
     Inr \<lparr>res_name = JStr ''w'', res_passed = True, res_message = ''Passed'', res_weight = JNum 2\<rparr>"
  by code_simp

theorem weight_default_witness:
  "eval_assertion exact_builtins ''hi'' (JObj [(''name'', JStr ''w''), (''weight'', JNum 2)]) =
     Inr \<lparr>res_name = JStr ''w'', res_passed = True, res_message = ''Passed'', res_weight = JNum 2\<rparr> \<and>
   score (record_result exact_builtins init_state
       \<lparr>res_name = JStr ''w'', res_passed = True, res_message = ''Passed'', res_weight = JNum 2\<rparr>) =
     JNum 2"
  using weight_default [OF weight_two_example, of init_state] weight_two_example
  by (simp add: init_state_def js_add_numbers exact_builtins_def)

text \<open>
  The claim as stated fails: a configured weight of 0 is replaced by 1, and a weight that
  is not a number, such as the string \<open>heavy\<close>, is kept and not replaced by 1.
\<close>

theorem weight_zero_counterexample:
  "eval_assertion exact_builtins ''hi'' (JObj [(''name'', JStr ''zero''), (''weight'', JNum 0)]) =
     Inr \<lparr>res_name = JStr ''zero'', res_passed = True, res_message = ''Passed'', res_weight = JNum 1\<rparr> \<and>
   eval_assertion exact_builtins ''hi'' (JObj [(''name'', JStr ''text''), (''weight'', JStr ''heavy'')]) =
     Inr \<lparr>res_name = JStr ''text'', res_passed = True, res_message = ''Passed'',
          res_weight = JStr ''heavy''\<rparr>"
  by code_simp

subsection \<open>The length rule\<close>

lemma type_not_nullish: "get_prop a k = JStr s \<Longrightarrow> \<not> nullish a"
  by (cases a) auto

text \<open>
  C5, as amended. A \<open>MAX_LENGTH\<close> assertion whose \<open>max_chars\<close> is a number other than 0
  passes when the length of the output is at most \<open>max_chars\<close> and fails when it is above,
  with the message \<open>Output too long: {len} chars\<close>; when \<open>max_chars\<close> is absent the limit
  is 1000.
\<close>

theorem max_length_rule:
  assumes "get_prop a ''type'' = JStr ''MAX_LENGTH''"
  shows "(\<forall>m. opt_prop (get_prop a ''params'') ''max_chars'' = JNum m \<and> m \<noteq> 0 \<longrightarrow>
            eval_assertion js output a =
              Inr \<lparr>res_name = get_prop a ''name'',
                   res_passed = (of_nat (length output) \<le> m),
                   res_message = (if of_nat (length output) \<le> m then ''Passed''
                      else ''Output too long: '' @ show_nat (length output) @ '' chars''),
                   res_weight = assertion_weight a\<rparr>) \<and>
         (opt_prop (get_prop a ''params'') ''max_chars'' = JUndefined \<longrightarrow>
            eval_assertion js output a =
              Inr \<lparr>res_name = get_prop a ''name'',
                   res_passed = (length output \<le> 1000),
                   res_message = (if length output \<le> 1000 then ''Passed''
                      else ''Output too long: '' @ show_nat (length output) @ '' chars''),
                   res_weight = assertion_weight a\<rparr>)"
proof -
  have n: "\<not> nullish a" using assms by (rule type_not_nullish)
  have lim: "(of_nat (length output) \<le> (1000::rat)) = (length output \<le> 1000)"
    by (metis of_nat_le_iff of_nat_numeral)
  show ?thesis
    using n assms lim
    by (auto simp: eval_assertion_def check_def Let_def js_or_def num_gt_def to_number_def not_less)
qed

lemma limit_ten_props:
  "get_prop limit_ten ''type'' = JStr ''MAX_LENGTH''"
  "opt_prop (get_prop limit_ten ''params'') ''max_chars'' = JNum 10"
  "get_prop limit_ten ''name'' = JStr ''len''"
  "assertion_weight limit_ten = JNum 1"
  by code_simp+

theorem max_length_rule_witness:
  "get_prop limit_ten ''type'' = JStr ''MAX_LENGTH'' \<and>
   opt_prop (get_prop limit_ten ''params'') ''max_chars'' = JNum 10 \<and>
   eval_assertion exact_builtins ''0123456789'' limit_ten =
     Inr \<lparr>res_name = JStr ''len'', res_passed = True, res_message = ''Passed'',
          res_weight = JNum 1\<rparr> \<and>
   eval_assertion exact_builtins ''0123456789X'' limit_ten =
     Inr \<lparr>res_name = JStr ''len'', res_passed = False,
          res_message = ''Output too long: 11 chars'', res_weight = JNum 1\<rparr>"
  using max_length_rule [OF limit_ten_props(1), of exact_builtins "''0123456789''"]
    max_length_rule [OF limit_ten_props(1), of exact_builtins "''0123456789X''"]
    limit_ten_props
  by (simp add: show_nat.simps digit_char_def)

text \<open>
  The claim as stated fails for the numeric limit 0: an output of one character is longer
  than 0 and passes.
\<close>

theorem max_length_zero_counterexample:
  "opt_prop (get_prop limit_zero ''params'') ''max_chars'' = JNum 0 \<and>
   length ''a'' > 0 \<and>
   eval_assertion exact_builtins ''a'' limit_zero =
     Inr \<lparr>res_name = JStr ''len'', res_passed = True, res_message = ''Passed'',
          res_weight = JNum 1\<rparr>"
  by code_simp

text \<open>
  C10. A \<open>MAX_LENGTH\<close> assertion whose \<open>max_chars\<close> is the number 0, or whose \<open>params\<close> is
  missing, has the limit 1000: it passes exactly the outputs of at most 1000
  characters.
\<close>

theorem max_length_default_limit:
  assumes "get_prop a ''type'' = JStr ''MAX_LENGTH''"
    and "nullish (get_prop a ''params'') \<or>
         opt_prop (get_prop a ''params'') ''max_chars'' = JNum 0"
  shows "eval_assertion js output a =
           Inr \<lparr>res_name = get_prop a ''name'',
                res_passed = (length output \<le> 1000),
                res_message = (if length output \<le> 1000 then ''Passed''
                   else ''Output too long: '' @ show_nat (length output) @ '' chars''),
                res_weight = assertion_weight a\<rparr>"
proof -
  have n: "\<not> nullish a" using assms(1) by (rule type_not_nullish)
  have lim: "(of_nat (length output) \<le> (1000::rat)) = (length output \<le> 1000)"
    by (metis of_nat_le_iff of_nat_numeral)
  from assms(2) have "\<not> truthy (opt_prop (get_prop a ''params'') ''max_chars'')"
    by (auto simp: opt_prop_def)
  then show ?thesis
    using n assms(1) lim
    by (auto simp: eval_assertion_def check_def Let_def js_or_def num_gt_def to_number_def not_less)
qed

lemma limit_zero_props:
  "get_prop limit_zero ''type'' = JStr ''MAX_LENGTH''"
  "opt_prop (get_prop limit_zero ''params'') ''max_chars'' = JNum 0"
  "get_prop limit_zero ''name'' = JStr ''len''"
  "assertion_weight limit_zero = JNum 1"
  by code_simp+

theorem max_length_default_limit_witness:
  "get_prop limit_zero ''type'' = JStr ''MAX_LENGTH'' \<and>
   opt_prop (get_prop limit_zero ''params'') ''max_chars'' = JNum 0 \<and>
   eval_assertion exact_builtins ''hello world'' limit_zero =
     Inr \<lparr>res_name = JStr ''len'', res_passed = True, res_message = ''Passed'',
          res_weight = JNum 1\<rparr>"
  using max_length_default_limit [OF limit_zero_props(1), of exact_builtins "''hello world''"]
    limit_zero_props
  by simp

subsection \<open>Rules the engine does not know\<close>





subsection \<open>The required text\<close>

lemma starts_with_iff: "starts_with s t \<longleftrightarrow> (\<exists>ss. s = t @ ss)"
  by (induction s t rule: starts_with.induct) auto

lemma js_includes_iff: "js_includes s t \<longleftrightarrow> (\<exists>ps ss. s = ps @ t @ ss)"
proof (induction s)
  case Nil
  then show ?case by auto
next
  case (Cons c s)
  show ?case
  proof
    assume "js_includes (c # s) t"
    then consider "starts_with (c # s) t" | "js_includes s t" by auto
    then show "\<exists>ps ss. c # s = ps @ t @ ss"
    proof cases
      case 1
      then obtain ss where "c # s = [] @ t @ ss" by (auto simp: starts_with_iff)
      then show ?thesis by blast
    next
      case 2
      with Cons.IH obtain ps ss where "s = ps @ t @ ss" by blast
      then have "c # s = (c # ps) @ t @ ss" by simp
      then show ?thesis by blast
    qed
  next
    assume "\<exists>ps ss. c # s = ps @ t @ ss"
    then obtain ps ss where eq: "c # s = ps @ t @ ss" by blast
    show "js_includes (c # s) t"
    proof (cases ps)
      case Nil
      with eq have "starts_with (c # s) t" by (auto simp: starts_with_iff)
      then show ?thesis by simp
    next
      case (Cons p ps')
      with eq have "s = ps' @ t @ ss" by simp
      with Cons.IH have "js_includes s t" by blast
      then show ?thesis by simp
    qed
  qed
qed

text \<open>
  C6. A \<open>CONTAINS_TEXT\<close> assertion passes when \<open>text\<close> is absent or empty. Otherwise it
  passes if and only if the output holds \<open>text\<close> as a contiguous run of characters, compared
  as they are, and on failure the message is \<open>Missing required text: "{text}"\<close>.
\<close>

theorem contains_text_rule:
  assumes "get_prop a ''type'' = JStr ''CONTAINS_TEXT''"
  shows "(\<not> truthy (opt_prop (get_prop a ''params'') ''text'') \<longrightarrow>
            eval_assertion js output a =
              Inr \<lparr>res_name = get_prop a ''name'', res_passed = True, res_message = ''Passed'',
                   res_weight = assertion_weight a\<rparr>) \<and>
         (\<forall>t. opt_prop (get_prop a ''params'') ''text'' = JStr t \<and> t \<noteq> [] \<longrightarrow>
            eval_assertion js output a =
              Inr \<lparr>res_name = get_prop a ''name'',
                   res_passed = (\<exists>ps ss. output = ps @ t @ ss),
                   res_message = (if \<exists>ps ss. output = ps @ t @ ss then ''Passed''
                      else ''Missing required text: '' @ [CHR 0x22] @ t @ [CHR 0x22]),
                   res_weight = assertion_weight a\<rparr>)"
proof -
  have n: "\<not> nullish a" using assms by (rule type_not_nullish)
  show ?thesis
    using n assms
    by (auto simp: eval_assertion_def check_def Let_def js_includes_iff)
qed

lemma requires_hello_props:
  "get_prop requires_hello ''type'' = JStr ''CONTAINS_TEXT''"
  "opt_prop (get_prop requires_hello ''params'') ''text'' = JStr ''hello''"
  "get_prop requires_hello ''name'' = JStr ''txt''"
  "assertion_weight requires_hello = JNum 1"
  by code_simp+

lemma Hello_has_no_hello: "\<not> (\<exists>ps ss. ''Hello world'' = ps @ ''hello'' @ ss)"
  unfolding js_includes_iff [symmetric] by code_simp

theorem contains_text_rule_witness:
  "get_prop requires_hello ''type'' = JStr ''CONTAINS_TEXT'' \<and>
   opt_prop (get_prop requires_hello ''params'') ''text'' = JStr ''hello'' \<and>
   eval_assertion exact_builtins ''Hello world'' requires_hello =
     Inr \<lparr>res_name = JStr ''txt'', res_passed = False,
          res_message = ''Missing required text: '' @ [CHR 0x22] @ ''hello'' @ [CHR 0x22],
          res_weight = JNum 1\<rparr>"
  using contains_text_rule [OF requires_hello_props(1), of exact_builtins "''Hello world''"]
    requires_hello_props Hello_has_no_hello
  by simp

subsection \<open>The forbidden pattern\<close>







subsection \<open>One more passing assertion\<close>

















lemma example_after:
  "validate exact_builtins ''hello world!!'' 50 (example_assertions @ [one_more]) =
     Inr \<lparr>rep_score = JNum 67, rep_passed = False, rep_failedCount = 1,
          rep_results =
            [\<lparr>res_name = JStr ''len'', res_passed = False,
               res_message = ''Output too long: 13 chars'', res_weight = JNum 1\<rparr>,
             \<lparr>res_name = JStr ''txt'', res_passed = True,
               res_message = ''Passed'', res_weight = JNum 1\<rparr>,
             \<lparr>res_name = JStr ''more'', res_passed = True,
               res_message = ''Passed'', res_weight = JNum 1\<rparr>]\<rparr>"
  by code_simp




text \<open>
  Without the exact arithmetic the score can go down although no weight is negative: in
  doubles the two sums round apart, the quotient falls below 0.555, and a score of 56
  becomes 55.
\<close>

lemma rounded_sums_lower_the_score:
  "validate doubles_near_tie ''hello'' 50 near_tie_assertions =
     Inr \<lparr>rep_score = JNum 56, rep_passed = False, rep_failedCount = 1,
          rep_results =
            [\<lparr>res_name = JStr ''txt'', res_passed = True,
               res_message = ''Passed'', res_weight = JNum 222\<rparr>,
             \<lparr>res_name = JStr ''bye'', res_passed = False,
               res_message = ''Missing required text: '' @ [CHR 0x22] @ ''goodbye'' @ [CHR 0x22],
               res_weight = JNum 178\<rparr>]\<rparr> \<and>
   validate doubles_near_tie ''hello'' 50 (near_tie_assertions @ [tiny_more]) =
     Inr \<lparr>rep_score = JNum 55, rep_passed = False, rep_failedCount = 1,
          rep_results =
            [\<lparr>res_name = JStr ''txt'', res_passed = True,
               res_message = ''Passed'', res_weight = JNum 222\<rparr>,
             \<lparr>res_name = JStr ''bye'', res_passed = False,
               res_message = ''Missing required text: '' @ [CHR 0x22] @ ''goodbye'' @ [CHR 0x22],
               res_weight = JNum 178\<rparr>,
             \<lparr>res_name = JStr ''more'', res_passed = True,
               res_message = ''Passed'', res_weight = JNum (33 / 2 ^ 50)\<rparr>]\<rparr>"
  by code_simp

end
